theory Spec2Isabelle
  imports Complex_Main "HOL-Library.Sublist" "HOL-Library.Log_Nat"
    "HOL-Library.Char_ord" "HOL-Library.List_Lexorder"
begin

section \<open>Paths\<close>

text \<open>
  \<open>main\<close> resolves every path it is given (\<open>Path(...).expanduser().resolve()\<close>) and
  the directory scan of a resolved folder yields resolved paths, so a \<open>Path\<close> is modelled
  as the list of components of an absolute path; the root is the empty list. The result
  of \<open>relative_to\<close> is a list of components too, read relative to its base.
\<close>

type_synonym path = "string list"

datatype error =
    FileNotFoundError path
  | FileExistsError path
  | NotADirectoryError path
  | ValueError
  | TypeError

definition path_name :: "path \<Rightarrow> string" where
  \<comment> \<open>\<open>Path.name\<close>: the last component, the empty string for the root.\<close>
  "path_name p = (if p = [] then [] else last p)"

definition rfind_dot :: "string \<Rightarrow> nat option" where
  \<comment> \<open>\<open>name.rfind('.')\<close>, with \<open>None\<close> for Python's \<open>-1\<close>.\<close>
  "rfind_dot s =
     (case filter (\<lambda>i. s ! i = CHR ''.'') (rev [0..<length s]) of
        [] \<Rightarrow> None
      | i # _ \<Rightarrow> Some i)"

definition path_suffix :: "path \<Rightarrow> string" where
  \<comment> \<open>\<open>Path.suffix\<close>: \<open>name[i:]\<close> when \<open>0 < i < len(name) - 1\<close>, else empty.\<close>
  "path_suffix p =
     (let name = path_name p in
      case rfind_dot name of
        None \<Rightarrow> []
      | Some i \<Rightarrow> if 0 < i \<and> i + 1 < length name then drop i name else [])"

definition path_stem :: "path \<Rightarrow> string" where
  \<comment> \<open>\<open>Path.stem\<close>: \<open>name[:i]\<close> under the same test, else the whole name.\<close>
  "path_stem p =
     (let name = path_name p in
      case rfind_dot name of
        None \<Rightarrow> name
      | Some i \<Rightarrow> if 0 < i \<and> i + 1 < length name then take i name else name)"

definition joinpath :: "path \<Rightarrow> string \<Rightarrow> path" where
  \<comment> \<open>\<open>base / segment\<close> for one segment without a separator; an empty segment adds nothing.\<close>
  "joinpath base seg = (if seg = [] then base else base @ [seg])"

definition relative_to :: "path \<Rightarrow> path \<Rightarrow> error + path" where
  \<comment> \<open>\<open>src.relative_to(root)\<close> raises \<open>ValueError\<close> unless \<open>root\<close> is \<open>src\<close> or one of its parents.\<close>
  "relative_to p base = (if prefix base p then Inr (drop (length base) p) else Inl ValueError)"

definition ensure_output_path :: "path \<Rightarrow> path option \<Rightarrow> path \<Rightarrow> path" where
  "ensure_output_path src input_root out_dir =
     (case input_root of
        None \<Rightarrow> joinpath out_dir (path_name src)
      | Some base \<Rightarrow>
          (case relative_to src base of
             Inr rel \<Rightarrow> out_dir @ rel
           | Inl _ \<Rightarrow> joinpath out_dir (path_name src)))"

definition lower_char :: "char \<Rightarrow> char" where
  \<comment> \<open>\<open>str.lower\<close> on one character: the ASCII capitals and the Latin-1 capitals.\<close>
  "lower_char c =
     (let n = (of_char c :: nat) in
      if (65 \<le> n \<and> n \<le> 90) \<or> (192 \<le> n \<and> n \<le> 222 \<and> n \<noteq> 215)
      then char_of (n + 32) else c)"

definition lower :: "string \<Rightarrow> string" where
  "lower s = map lower_char s"

section \<open>Human-readable sizes\<close>

text \<open>
  \<open>human_bytes\<close> converts its argument to a float and divides by 1024 until the value is
  below 1024. A float is a dyadic rational, so the value is kept as the exact \<open>rat\<close>:
  \<open>py_float\<close> rounds an integer to 53 significant bits (ties to even) as \<open>float(n)\<close> does,
  division by 1024 is exact, and \<open>format_2f\<close> is the correctly rounded two-decimal
  rendering of \<open>f"{size:.2f}"\<close> (ties to even). Arguments are sizes and are not negative;
  \<open>float(n)\<close> overflows only from about \<open>2 ^ 1024\<close>, beyond any file size, and that raise
  is not part of the model.
\<close>

fun str_nat :: "nat \<Rightarrow> string" where
  "str_nat n =
     (if n < 10 then [''0123456789'' ! n]
      else str_nat (n div 10) @ [''0123456789'' ! (n mod 10)])"

declare str_nat.simps [simp del]

definition py_float :: "nat \<Rightarrow> rat" where
  "py_float n =
     (if n < 2 ^ 53 then of_nat n
      else
        (let sh = floorlog 2 n - 53;
             q = n div 2 ^ sh;
             r = n mod 2 ^ sh;
             half = 2 ^ (sh - 1);
             q' = (if r > half \<or> (r = half \<and> odd q) then q + 1 else q)
         in of_nat (q' * 2 ^ sh)))"

definition round_half_even :: "rat \<Rightarrow> nat" where
  "round_half_even x =
     (let f = nat \<lfloor>x\<rfloor>;
          d = x - of_nat f
      in if d < 1 / 2 then f
         else if 1 / 2 < d then f + 1
         else if even f then f else f + 1)"

definition format_2f :: "rat \<Rightarrow> string" where
  "format_2f x =
     (let r = round_half_even (x * 100) in
      str_nat (r div 100) @ ''.'' @ str_nat (r div 10 mod 10) @ str_nat (r mod 10))"

definition units :: "string list" where
  "units = [''B'', ''KB'', ''MB'', ''GB'', ''TB'']"

fun human_bytes_loop :: "rat \<Rightarrow> string list \<Rightarrow> string option" where
  "human_bytes_loop sz [] = None"
| "human_bytes_loop sz (u # us) =
     (if sz < 1024 \<or> u = last units
      then Some (if u \<noteq> ''B'' then format_2f sz @ '' '' @ u
                 else str_nat (nat \<lfloor>sz\<rfloor>) @ '' '' @ u)
      else human_bytes_loop (sz / 1024) us)"

definition human_bytes :: "nat \<Rightarrow> string" where
  "human_bytes n =
     (case human_bytes_loop (py_float n) units of
        Some s \<Rightarrow> s
      | None \<Rightarrow> str_nat n @ '' B'')"

section \<open>The filesystem and the external tools\<close>

text \<open>
  The filesystem maps a path to what is there: a file with its bytes, or a directory.
  Every filesystem and process operation of the program appends an event to the trace, so
  that "is invoked" and "performs I/O" are statements about the trace.
\<close>

datatype node = File string | Dir

record totals =
  total_before :: nat
  total_after :: nat
  saved_files :: nat
  skipped_files :: nat
  failed_files :: nat

datatype event =
    EvStat path
  | EvExists path
  | EvIsDir path
  | EvMkdir path
  | EvMove path path
  | EvMkTemp path
  | EvRmTree path
  | EvWhich string
  | EvGhostscript path path string
  | EvPikepdf path path
  | EvGlob path bool string
  | EvSummary totals int
  | EvNothingCompressed

record world =
  fs :: "path \<rightharpoonup> node"
  trace :: "event list"

text \<open>
  What lies outside the program is a parameter: whether \<open>gs\<close> is on the execution path,
  what the \<open>gs\<close> process does for a source and a setting (the launch raises, or it
  completes with an exit status, its two output streams and the bytes it left at the
  output path, if any), whether \<open>pikepdf\<close> was imported and what it does, the fresh
  directory \<open>tempfile\<close> picks, an I/O error of the final move, the size the system reports
  for a directory, the directory scan and the resolution of a command-line path.
\<close>

datatype proc_result =
    LaunchError string
  | Completed int string string "string option"

datatype lib_result =
    Raised string "string option"
  | Returned "string option"

record env =
  which_gs :: "string option"
  gs_run :: "path \<Rightarrow> string \<Rightarrow> proc_result"
  pikepdf_loaded :: bool
  pikepdf_run :: "path \<Rightarrow> lib_result"
  tempdir :: path
  move_error :: "path \<Rightarrow> path \<Rightarrow> string option"
  dir_size :: nat
  glob :: "path \<Rightarrow> bool \<Rightarrow> string \<Rightarrow> path list"
  resolve :: "string \<Rightarrow> path"

definition emit :: "event \<Rightarrow> world \<Rightarrow> world" where
  "emit ev w = w\<lparr>trace := trace w @ [ev]\<rparr>"

definition path_str :: "path \<Rightarrow> string" where
  \<comment> \<open>\<open>str(path)\<close>\<close>
  "path_str p = (if p = [] then ''/'' else concat (map (\<lambda>c. ''/'' @ c) p))"

definition stat_size :: "env \<Rightarrow> path \<Rightarrow> world \<Rightarrow> (error + nat) \<times> world" where
  \<comment> \<open>\<open>p.stat().st_size\<close>\<close>
  "stat_size e p w =
     (let w1 = emit (EvStat p) w in
      case fs w p of
        None \<Rightarrow> (Inl (FileNotFoundError p), w1)
      | Some (File bytes) \<Rightarrow> (Inr (length bytes), w1)
      | Some Dir \<Rightarrow> (Inr (dir_size e), w1))"

definition path_exists :: "path \<Rightarrow> world \<Rightarrow> bool \<times> world" where
  \<comment> \<open>\<open>p.exists()\<close>\<close>
  "path_exists p w = (fs w p \<noteq> None, emit (EvExists p) w)"

definition path_is_dir :: "path \<Rightarrow> world \<Rightarrow> bool \<times> world" where
  \<comment> \<open>\<open>p.is_dir()\<close>\<close>
  "path_is_dir p w = (fs w p = Some Dir, emit (EvIsDir p) w)"

function mkdir_fs :: "path \<Rightarrow> (path \<rightharpoonup> node) \<Rightarrow> error + (path \<rightharpoonup> node)" where
  "mkdir_fs p f =
     (case f p of
        Some Dir \<Rightarrow> Inr f
      | Some (File _) \<Rightarrow> Inl (FileExistsError p)
      | None \<Rightarrow>
          if p = [] then Inl (FileNotFoundError p)
          else
            (case f (butlast p) of
               Some Dir \<Rightarrow> Inr (f(p \<mapsto> Dir))
             | Some (File _) \<Rightarrow> Inl (NotADirectoryError p)
             | None \<Rightarrow>
                 (case mkdir_fs (butlast p) f of
                    Inl err \<Rightarrow> Inl err
                  | Inr f' \<Rightarrow> Inr (f'(p \<mapsto> Dir)))))"
  by pat_completeness auto
termination
  by (relation "measure (\<lambda>(p, f). length p)") auto

declare mkdir_fs.simps [simp del]

definition mkdir_parents :: "path \<Rightarrow> world \<Rightarrow> (error + unit) \<times> world" where
  \<comment> \<open>\<open>p.mkdir(parents=True, exist_ok=True)\<close>\<close>
  "mkdir_parents p w =
     (let w1 = emit (EvMkdir p) w in
      case mkdir_fs p (fs w) of
        Inl err \<Rightarrow> (Inl err, w1)
      | Inr f' \<Rightarrow> (Inr (), w1\<lparr>fs := f'\<rparr>))"

definition reroot :: "path \<Rightarrow> path \<Rightarrow> (path \<rightharpoonup> node) \<Rightarrow> (path \<rightharpoonup> node)" where
  \<comment> \<open>\<open>os.rename(a, b)\<close>: what was at and under \<open>a\<close> is at and under \<open>b\<close> afterwards.\<close>
  "reroot a b f =
     (\<lambda>p. if prefix b p then f (a @ drop (length b) p)
          else if prefix a p then None
          else f p)"

definition shutil_move :: "env \<Rightarrow> path \<Rightarrow> path \<Rightarrow> world \<Rightarrow> (string + unit) \<times> world" where
  \<comment> \<open>\<open>shutil.move(str(a), str(b))\<close>; \<open>Inl\<close> carries the text of the exception raised.\<close>
  "shutil_move e a b w =
     (let w1 = emit (EvMove a b) w;
          real_dst = (if fs w b = Some Dir then joinpath b (path_name a) else b)
      in if fs w b = Some Dir \<and> fs w real_dst \<noteq> None
         then (Inl (''Destination path '' @ [CHR 0x27] @ path_str real_dst @ [CHR 0x27]
                    @ '' already exists''), w1)
         else
           (case move_error e a b of
              Some text \<Rightarrow> (Inl text, w1)
            | None \<Rightarrow>
                (case fs w a of
                   None \<Rightarrow>
                     (Inl (''[Errno 2] No such file or directory: '' @ [CHR 0x27] @ path_str a
                           @ [CHR 0x27]), w1)
                 | Some (File bytes) \<Rightarrow> (Inr (), w1\<lparr>fs := reroot a real_dst (fs w)\<rparr>)
                 | Some Dir \<Rightarrow>
                     if fs w real_dst \<noteq> None
                     then (Inl (''[Errno 17] File exists: '' @ [CHR 0x27] @ path_str real_dst
                                @ [CHR 0x27]), w1)
                     else (Inr (), w1\<lparr>fs := reroot a real_dst (fs w)\<rparr>))))"

definition mkdtemp :: "env \<Rightarrow> world \<Rightarrow> (error + path) \<times> world" where
  \<comment> \<open>entering \<open>tempfile.TemporaryDirectory\<close>: a directory that did not exist is created.\<close>
  "mkdtemp e w =
     (let td = tempdir e;
          w1 = emit (EvMkTemp td) w
      in if td = [] then (Inl (FileExistsError td), w1)
         else if fs w td \<noteq> None then (Inl (FileExistsError td), w1)
         else if fs w (butlast td) \<noteq> Some Dir then (Inl (FileNotFoundError td), w1)
         else (Inr td, w1\<lparr>fs := (fs w)(td \<mapsto> Dir)\<rparr>))"

definition cleanup :: "path \<Rightarrow> world \<Rightarrow> world" where
  \<comment> \<open>leaving the \<open>with\<close> block, on every exit path: the directory and all under it go.\<close>
  "cleanup td w =
     (emit (EvRmTree td) w)\<lparr>fs := (\<lambda>p. if prefix td p then None else fs w p)\<rparr>"

definition write_output :: "path \<Rightarrow> string option \<Rightarrow> world \<Rightarrow> world" where
  \<comment> \<open>a tool leaving bytes at its output path, or leaving nothing\<close>
  "write_output p written w =
     (case written of None \<Rightarrow> w | Some bytes \<Rightarrow> w\<lparr>fs := (fs w)(p \<mapsto> File bytes)\<rparr>)"

section \<open>The two strategies\<close>

definition QUALITY_MAP :: "string \<rightharpoonup> string" where
  "QUALITY_MAP =
     map_of [(''screen'', ''/screen''), (''ebook'', ''/ebook''),
             (''printer'', ''/printer''), (''prepress'', ''/prepress'')]"

definition is_space :: "char \<Rightarrow> bool" where
  \<comment> \<open>the characters \<open>str.strip()\<close> removes, among the first 256 code points\<close>
  "is_space c =
     (let n = (of_char c :: nat) in
      (9 \<le> n \<and> n \<le> 13) \<or> (28 \<le> n \<and> n \<le> 32) \<or> n = 133 \<or> n = 160)"

definition strip :: "string \<Rightarrow> string" where
  "strip s = rev (dropWhile is_space (rev (dropWhile is_space s)))"

definition run_ghostscript_compress ::
  "env \<Rightarrow> path \<Rightarrow> path \<Rightarrow> string \<Rightarrow> world \<Rightarrow> (bool \<times> string) \<times> world" where
  "run_ghostscript_compress e src tmp_out quality w =
     (let w1 = emit (EvWhich ''gs'') w in
      if which_gs e = None \<or> which_gs e = Some []
      then ((False, ''Ghostscript (gs) not found.''), w1)
      else
        (case QUALITY_MAP quality of
           None \<Rightarrow> ((False, ''Unknown quality: '' @ quality), w1)
         | Some pdfsettings \<Rightarrow>
             if pdfsettings = [] then ((False, ''Unknown quality: '' @ quality), w1)
             else
               (let w2 = emit (EvGhostscript src tmp_out pdfsettings) w1 in
                case gs_run e src pdfsettings of
                  LaunchError text \<Rightarrow> ((False, ''Ghostscript execution error: '' @ text), w2)
                | Completed returncode out err written \<Rightarrow>
                    (let w3 = write_output tmp_out written w2 in
                     if returncode \<noteq> 0
                     then ((False,
                            (if strip err \<noteq> [] then strip err
                             else if strip out \<noteq> [] then strip out
                             else ''Ghostscript failed.'')), w3)
                     else ((True, ''Compressed with Ghostscript.''), w3)))))"

definition run_pikepdf_optimize ::
  "env \<Rightarrow> path \<Rightarrow> path \<Rightarrow> world \<Rightarrow> (bool \<times> string) \<times> world" where
  "run_pikepdf_optimize e src tmp_out w =
     (if \<not> pikepdf_loaded e
      then ((False, ''pikepdf is not installed (fallback unavailable).''), w)
      else
        (let w1 = emit (EvPikepdf src tmp_out) w in
         case pikepdf_run e src of
           Raised text written \<Rightarrow>
             ((False, ''pikepdf failed: '' @ text), write_output tmp_out written w1)
         | Returned written \<Rightarrow>
             ((True, ''Optimized with pikepdf (structure/streams).''),
              write_output tmp_out written w1)))"

section \<open>The commit step and the orchestrator\<close>

definition safe_write_output ::
  "env \<Rightarrow> path \<Rightarrow> path \<Rightarrow> bool \<Rightarrow> world \<Rightarrow> (error + bool \<times> string) \<times> world" where
  "safe_write_output e tmp_out final_out overwrite w =
     (case mkdir_parents (butlast final_out) w of
        (Inl err, w1) \<Rightarrow> (Inl err, w1)
      | (Inr _, w1) \<Rightarrow>
          (case path_exists final_out w1 of
             (ex, w2) \<Rightarrow>
               if ex \<and> \<not> overwrite
               then (Inr (False, ''Output exists (use --overwrite): '' @ path_str final_out), w2)
               else
                 (case shutil_move e tmp_out final_out w2 of
                    (Inr _, w3) \<Rightarrow> (Inr (True, ''Saved.''), w3)
                  | (Inl text, w3) \<Rightarrow> (Inr (False, ''Failed to save output: '' @ text), w3))))"

text \<open>
  The fields of \<open>CompressResult\<close>; \<open>src\<close>, \<open>dst\<close> and \<open>method\<close> are \<open>res_src\<close>,
  \<open>res_dst\<close> and \<open>method_used\<close> here. \<open>saved_pct\<close> is a float in the source; the record
  keeps the exact quotient it rounds.
\<close>

record compress_result =
  res_src :: path
  res_dst :: path
  method_used :: string
  before_bytes :: nat
  after_bytes :: nat
  saved_bytes :: nat
  saved_pct :: rat
  skipped :: bool
  message :: string

definition candidate_step ::
  "env \<Rightarrow> path \<Rightarrow> path \<Rightarrow> bool \<Rightarrow> nat \<Rightarrow> path \<Rightarrow> string \<Rightarrow> string \<Rightarrow> world
     \<Rightarrow> (error + compress_result) \<times> world" where
  \<comment> \<open>\<open>compress_one\<close> from the existence check of the candidate to the end, where the
      paths of the two strategies meet with \<open>method\<close> and \<open>msg\<close> set\<close>
  "candidate_step e src dst overwrite before tmp_out meth msg w =
     (case path_exists tmp_out w of
        (ex, w1) \<Rightarrow>
          if \<not> ex
          then (Inr \<lparr>res_src = src, res_dst = dst, method_used = ''failed'', before_bytes = before,
                     after_bytes = before, saved_bytes = 0, saved_pct = 0, skipped = True,
                     message = ''Compression produced no output file.''\<rparr>, w1)
          else
            (case stat_size e tmp_out w1 of
               (Inl err, w2) \<Rightarrow> (Inl err, w2)
             | (Inr after, w2) \<Rightarrow>
                 if after \<ge> before
                 then (Inr \<lparr>res_src = src, res_dst = dst, method_used = meth, before_bytes = before,
                            after_bytes = after, saved_bytes = 0, saved_pct = 0, skipped = True,
                            message = ''Skipped: output not smaller ('' @ human_bytes after
                              @ '' >= '' @ human_bytes before @ ''). '' @ msg\<rparr>, w2)
                 else
                   (case safe_write_output e tmp_out dst overwrite w2 of
                      (Inl err, w3) \<Rightarrow> (Inl err, w3)
                    | (Inr (ok_save, save_msg), w3) \<Rightarrow>
                        if \<not> ok_save
                        then (Inr \<lparr>res_src = src, res_dst = dst, method_used = meth,
                                   before_bytes = before, after_bytes = after,
                                   saved_bytes = before - after,
                                   saved_pct = (if before \<noteq> 0
                                                then of_nat (before - after) / of_nat before * 100
                                                else 0),
                                   skipped = True, message = save_msg\<rparr>, w3)
                        else (Inr \<lparr>res_src = src, res_dst = dst, method_used = meth,
                                   before_bytes = before, after_bytes = after,
                                   saved_bytes = before - after,
                                   saved_pct = (if before \<noteq> 0
                                                then of_nat (before - after) / of_nat before * 100
                                                else 0),
                                   skipped = False, message = msg\<rparr>, w3))))"

definition strategy_step ::
  "env \<Rightarrow> path \<Rightarrow> path \<Rightarrow> string \<Rightarrow> bool \<Rightarrow> nat \<Rightarrow> path \<Rightarrow> world
     \<Rightarrow> (error + compress_result) \<times> world" where
  \<comment> \<open>the body of the \<open>with\<close> block of \<open>compress_one\<close>\<close>
  "strategy_step e src dst quality overwrite before tmp_out w =
     (case run_ghostscript_compress e src tmp_out quality w of
        ((ok, msg), w1) \<Rightarrow>
          if ok
          then candidate_step e src dst overwrite before tmp_out
                 (''ghostscript('' @ quality @ '')'') msg w1
          else
            (case run_pikepdf_optimize e src tmp_out w1 of
               ((ok2, msg2), w2) \<Rightarrow>
                 if ok2
                 then candidate_step e src dst overwrite before tmp_out
                        ''pikepdf(optimize)'' msg2 w2
                 else (Inr \<lparr>res_src = src, res_dst = dst, method_used = ''failed'',
                            before_bytes = before, after_bytes = before, saved_bytes = 0,
                            saved_pct = 0, skipped = True,
                            message = ''Compression failed. GS: '' @ msg @ '' | Fallback: ''
                              @ msg2\<rparr>, w2)))"

definition compress_one ::
  "env \<Rightarrow> path \<Rightarrow> path \<Rightarrow> string \<Rightarrow> bool \<Rightarrow> bool \<Rightarrow> world
     \<Rightarrow> (error + compress_result) \<times> world" where
  "compress_one e src dst quality overwrite dry_run w =
     (case stat_size e src w of
        (Inl err, w1) \<Rightarrow> (Inl err, w1)
      | (Inr before, w1) \<Rightarrow>
          if dry_run
          then (Inr \<lparr>res_src = src, res_dst = dst, method_used = ''dry-run'', before_bytes = before,
                     after_bytes = before, saved_bytes = 0, saved_pct = 0, skipped = True,
                     message = ''Dry run: no file written.''\<rparr>, w1)
          else
            (case mkdtemp e w1 of
               (Inl err, w2) \<Rightarrow> (Inl err, w2)
             | (Inr td, w2) \<Rightarrow>
                 (case strategy_step e src dst quality overwrite before
                         (td @ [path_stem src @ ''.compressed.pdf'']) w2 of
                    (r, w3) \<Rightarrow> (r, cleanup td w3))))"

section \<open>The batch runner\<close>

text \<open>
  The parsed command line. \<open>argparse\<close> leaves \<open>None\<close> in the one of \<open>--file\<close> and
  \<open>--folder\<close> that was not given. The per-file line \<open>print_result\<close> writes and the log
  lines other than the final summary have no influence on any result and are left out.
\<close>

record args =
  arg_file :: "string option"
  arg_folder :: "string option"
  arg_out :: string
  arg_quality :: string
  arg_overwrite :: bool
  arg_recursive :: bool
  arg_dry_run :: bool
  arg_verbose :: bool

definition find_pdfs_in_folder :: "env \<Rightarrow> path \<Rightarrow> bool \<Rightarrow> world \<Rightarrow> path list \<times> world" where
  "find_pdfs_in_folder e folder recursive w =
     (if recursive
      then (glob e folder True ''*.pdf'' @ glob e folder True ''*.PDF'',
            emit (EvGlob folder True ''*.PDF'') (emit (EvGlob folder True ''*.pdf'') w))
      else (glob e folder False ''*.pdf'' @ glob e folder False ''*.PDF'',
            emit (EvGlob folder False ''*.PDF'') (emit (EvGlob folder False ''*.pdf'') w)))"

definition tally :: "bool \<Rightarrow> totals \<Rightarrow> compress_result \<Rightarrow> totals" where
  \<comment> \<open>the accumulation in the body of the loop of \<open>main\<close>\<close>
  "tally dry_run t res =
     (let t1 = t\<lparr>total_before := total_before t + before_bytes res\<rparr> in
      if \<not> skipped res \<and> \<not> dry_run
      then t1\<lparr>total_after := total_after t1 + after_bytes res,
              saved_files := saved_files t1 + 1\<rparr>
      else if method_used res = ''failed''
      then t1\<lparr>failed_files := failed_files t1 + 1\<rparr>
      else t1\<lparr>skipped_files := skipped_files t1 + 1\<rparr>)"

fun process_all ::
  "env \<Rightarrow> path \<Rightarrow> path \<Rightarrow> string \<Rightarrow> bool \<Rightarrow> bool \<Rightarrow> path list \<Rightarrow> totals \<Rightarrow> world
     \<Rightarrow> (error + totals) \<times> world" where
  "process_all e folder out_dir quality overwrite dry_run [] t w = (Inr t, w)"
| "process_all e folder out_dir quality overwrite dry_run (src # rest) t w =
     (case compress_one e src (ensure_output_path src (Some folder) out_dir)
             quality overwrite dry_run w of
        (Inl err, w1) \<Rightarrow> (Inl err, w1)
      | (Inr res, w1) \<Rightarrow>
          process_all e folder out_dir quality overwrite dry_run rest (tally dry_run t res) w1)"

definition report_summary :: "totals \<Rightarrow> world \<Rightarrow> world" where
  \<comment> \<open>the values handed to the summary log line; the percentage is left out\<close>
  "report_summary t w =
     (if saved_files t > 0
      then emit (EvSummary t (if total_after t > 0
                              then int (total_before t) - int (total_after t) else 0)) w
      else emit EvNothingCompressed w)"

definition main_file :: "env \<Rightarrow> args \<Rightarrow> path \<Rightarrow> string \<Rightarrow> world \<Rightarrow> (error + int) \<times> world" where
  \<comment> \<open>\<open>main\<close>, the branch \<open>if args.file\<close>\<close>
  "main_file e a out_dir file w =
     (let src = resolve e file in
      case path_exists src w of
        (ex, w1) \<Rightarrow>
          if \<not> ex then (Inr 2, w1)
          else if lower (path_suffix src) \<noteq> ''.pdf'' then (Inr 2, w1)
          else
            (case compress_one e src (ensure_output_path src None out_dir)
                    (arg_quality a) (arg_overwrite a) (arg_dry_run a) w1 of
               (Inl err, w2) \<Rightarrow> (Inl err, w2)
             | (Inr res, w2) \<Rightarrow> (Inr (if \<not> skipped res then 0 else 1), w2)))"

definition main_folder :: "env \<Rightarrow> args \<Rightarrow> path \<Rightarrow> world \<Rightarrow> (error + int) \<times> world" where
  \<comment> \<open>\<open>main\<close>, folder mode\<close>
  "main_folder e a out_dir w =
     (case arg_folder a of
        None \<Rightarrow> (Inl TypeError, w)
      | Some name \<Rightarrow>
          (let folder = resolve e name in
           case path_exists folder w of
             (ex, w1) \<Rightarrow>
               if \<not> ex then (Inr 2, w1)
               else
                 (case path_is_dir folder w1 of
                    (isd, w2) \<Rightarrow>
                      if \<not> isd then (Inr 2, w2)
                      else
                        (case find_pdfs_in_folder e folder (arg_recursive a) w2 of
                           (found, w3) \<Rightarrow>
                             (let pdfs = sort found in
                              if pdfs = [] then (Inr 0, w3)
                              else
                                (case process_all e folder out_dir (arg_quality a)
                                        (arg_overwrite a) (arg_dry_run a) pdfs
                                        \<lparr>total_before = 0, total_after = 0, saved_files = 0,
                                         skipped_files = 0, failed_files = 0\<rparr> w3 of
                                   (Inl err, w4) \<Rightarrow> (Inl err, w4)
                                 | (Inr t, w4) \<Rightarrow>
                                     if arg_dry_run a then (Inr 0, w4)
                                     else (Inr 0, report_summary t w4)))))))"

definition main :: "env \<Rightarrow> args \<Rightarrow> world \<Rightarrow> (error + int) \<times> world" where
  "main e a w =
     (case mkdir_parents (resolve e (arg_out a)) w of
        (Inl err, w1) \<Rightarrow> (Inl err, w1)
      | (Inr _, w1) \<Rightarrow>
          (case arg_file a of
             None \<Rightarrow> main_folder e a (resolve e (arg_out a)) w1
           | Some file \<Rightarrow>
               if file \<noteq> [] then main_file e a (resolve e (arg_out a)) file w1
               else main_folder e a (resolve e (arg_out a)) w1))"

section \<open>Well-formed filesystems\<close>

text \<open>
  In a filesystem the root is a directory and whatever exists lies in a directory.
\<close>

definition wf_fs :: "(path \<rightharpoonup> node) \<Rightarrow> bool" where
  "wf_fs f \<longleftrightarrow> f [] = Some Dir \<and> (\<forall>p. p \<noteq> [] \<longrightarrow> f p \<noteq> None \<longrightarrow> f (butlast p) = Some Dir)"

section \<open>Example runs\<close>

text \<open>
  A small filesystem with one source file of 300 bytes and an existing output directory,
  and an environment whose tools are parameters; the temporary directory is
  \<open>/tmp/pdfcompress_0\<close> and the final move raises no I/O error.
\<close>

definition example_fs :: "path \<rightharpoonup> node" where
  "example_fs =
     [[] \<mapsto> Dir, [''tmp''] \<mapsto> Dir, [''in''] \<mapsto> Dir,
      [''in'', ''a.pdf''] \<mapsto> File (replicate 300 (CHR ''x'')), [''out''] \<mapsto> Dir]"

definition example_world :: world where
  "example_world = \<lparr>fs = example_fs, trace = []\<rparr>"

definition example_resolve :: "string \<Rightarrow> path" where
  "example_resolve s =
     (if s = ''/in/a.pdf'' then [''in'', ''a.pdf'']
      else if s = ''/in/missing.pdf'' then [''in'', ''missing.pdf'']
      else if s = ''/in/notes.txt'' then [''in'', ''notes.txt'']
      else if s = ''/in'' then [''in'']
      else if s = ''/out'' then [''out'']
      else if s = ''/nowhere'' then [''nowhere'']
      else [])"

definition example_env ::
  "string option \<Rightarrow> (path \<Rightarrow> string \<Rightarrow> proc_result) \<Rightarrow> bool \<Rightarrow> (path \<Rightarrow> lib_result)
     \<Rightarrow> (path \<Rightarrow> bool \<Rightarrow> string \<Rightarrow> path list) \<Rightarrow> env" where
  "example_env gs run loaded pike scan =
     \<lparr>which_gs = gs, gs_run = run, pikepdf_loaded = loaded, pikepdf_run = pike,
      tempdir = [''tmp'', ''pdfcompress_0''], move_error = (\<lambda>a b. None), dir_size = 4096,
      glob = scan, resolve = example_resolve\<rparr>"

definition no_tools_env :: env where
  \<comment> \<open>neither \<open>gs\<close> nor \<open>pikepdf\<close> is installed\<close>
  "no_tools_env =
     example_env None (\<lambda>src setting. LaunchError []) False (\<lambda>src. Raised [] None)
       (\<lambda>folder recursive pattern. [])"

definition gs_env :: "nat \<Rightarrow> env" where
  \<comment> \<open>\<open>gs\<close> is installed and leaves an output of the given size; \<open>pikepdf\<close> is installed too\<close>
  "gs_env n =
     example_env (Some ''/usr/bin/gs'')
       (\<lambda>src setting. Completed 0 [] [] (Some (replicate n (CHR ''y''))))
       True (\<lambda>src. Returned (Some (replicate n (CHR ''z''))))
       (\<lambda>folder recursive pattern. [])"

definition pikepdf_env :: "nat \<Rightarrow> env" where
  \<comment> \<open>\<open>gs\<close> is missing, \<open>pikepdf\<close> is installed and leaves an output of the given size\<close>
  "pikepdf_env n =
     example_env None (\<lambda>src setting. LaunchError []) True
       (\<lambda>src. Returned (Some (replicate n (CHR ''z''))))
       (\<lambda>folder recursive pattern. [])"

definition silent_gs_env :: env where
  \<comment> \<open>\<open>gs\<close> exits with status 0 and leaves no output file\<close>
  "silent_gs_env =
     example_env (Some ''/usr/bin/gs'') (\<lambda>src setting. Completed 0 [] [] None)
       True (\<lambda>src. Returned (Some (replicate 100 (CHR ''z''))))
       (\<lambda>folder recursive pattern. [])"

text \<open>
  A batch of three sources of 300, 400 and 500 bytes, for which \<open>gs\<close> leaves outputs of
  200, 250 and 600 bytes: the first two are committed, the third is not smaller.
\<close>

definition batch_fs :: "path \<rightharpoonup> node" where
  "batch_fs =
     [[] \<mapsto> Dir, [''tmp''] \<mapsto> Dir, [''in''] \<mapsto> Dir,
      [''in'', ''a.pdf''] \<mapsto> File (replicate 300 (CHR ''x'')),
      [''in'', ''b.pdf''] \<mapsto> File (replicate 400 (CHR ''x'')),
      [''in'', ''c.pdf''] \<mapsto> File (replicate 500 (CHR ''x'')),
      [''out''] \<mapsto> Dir]"

definition batch_world :: world where
  "batch_world = \<lparr>fs = batch_fs, trace = []\<rparr>"

definition batch_env :: env where
  "batch_env =
     example_env (Some ''/usr/bin/gs'')
       (\<lambda>src setting.
          Completed 0 [] []
            (Some (replicate (if src = [''in'', ''a.pdf''] then 200
                              else if src = [''in'', ''b.pdf''] then 250 else 600) (CHR ''y''))))
       False (\<lambda>src. Raised [] None)
       (\<lambda>folder recursive pattern.
          if folder = [''in''] \<and> pattern = ''*.pdf''
          then [[''in'', ''c.pdf''], [''in'', ''a.pdf''], [''in'', ''b.pdf'']] else [])"

abbreviation example_src :: path where
  "example_src \<equiv> [''in'', ''a.pdf'']"

abbreviation example_dst :: path where
  "example_dst \<equiv> [''out'', ''a.pdf'']"

abbreviation example_td :: path where
  "example_td \<equiv> [''tmp'', ''pdfcompress_0'']"

abbreviation example_tmp :: path where
  "example_tmp \<equiv> [''tmp'', ''pdfcompress_0'', ''a.compressed.pdf'']"

definition example_args :: "string option \<Rightarrow> string option \<Rightarrow> bool \<Rightarrow> args" where
  "example_args file folder dry =
     \<lparr>arg_file = file, arg_folder = folder, arg_out = ''/out'', arg_quality = ''ebook'',
      arg_overwrite = False, arg_recursive = False, arg_dry_run = dry, arg_verbose = False\<rparr>"

definition is_fallback :: "event \<Rightarrow> bool" where
  \<comment> \<open>the event of invoking the fallback optimizer\<close>
  "is_fallback ev = (case ev of EvPikepdf a b \<Rightarrow> True | _ \<Rightarrow> False)"

definition is_write :: "event \<Rightarrow> bool" where
  \<comment> \<open>the events that may change the filesystem or start a tool\<close>
  "is_write ev =
     (case ev of
        EvMkdir p \<Rightarrow> True | EvMove a b \<Rightarrow> True | EvMkTemp p \<Rightarrow> True | EvRmTree p \<Rightarrow> True
      | EvGhostscript a b c \<Rightarrow> True | EvPikepdf a b \<Rightarrow> True | _ \<Rightarrow> False)"

definition new_events :: "world \<Rightarrow> world \<Rightarrow> event list" where
  \<comment> \<open>what a run from the first world to the second appended to the trace\<close>
  "new_events w w' = drop (length (trace w)) (trace w')"

section \<open>The size formatter\<close>

text \<open>
  C10. The size formatter renders 0 as "0 B", 1536 as "1.50 KB" and 1073741824 as
  "1.00 GB".
\<close>

lemma human_bytes_zero: "human_bytes 0 = ''0 B''"
  by (simp add: human_bytes_def py_float_def units_def str_nat.simps)

lemma human_bytes_kilo: "human_bytes 1536 = ''1.50 KB''"
  by (simp add: human_bytes_def py_float_def units_def format_2f_def round_half_even_def
      str_nat.simps)

lemma human_bytes_giga: "human_bytes 1073741824 = ''1.00 GB''"
  by (simp add: human_bytes_def py_float_def units_def format_2f_def round_half_even_def
      str_nat.simps)

theorem human_bytes_examples:
  "human_bytes 0 = ''0 B'' \<and> human_bytes 1536 = ''1.50 KB''
     \<and> human_bytes 1073741824 = ''1.00 GB''"
  using human_bytes_zero human_bytes_kilo human_bytes_giga by (intro conjI)

section \<open>The path mapper\<close>

lemma relative_to_under [simp]: "relative_to (base @ rel) base = Inr rel"
  by (simp add: relative_to_def)

lemma relative_to_outside [simp]: "\<not> prefix base p \<Longrightarrow> relative_to p base = Inl ValueError"
  by (simp add: relative_to_def)

text \<open>
  C7. Without a batch root the destination is the output root joined with the file name of
  the source. With a batch root it is the output root joined with the source taken
  relative to that root, and the output root joined with the file name when the source
  does not lie under the root. For the root /in, the output root /out and the source
  /in/a/b.pdf the destination is /out/a/b.pdf; without a root it is /out/b.pdf.
\<close>

theorem ensure_output_path_maps:
  "ensure_output_path src None out_dir = joinpath out_dir (path_name src)
   \<and> ensure_output_path (base @ rel) (Some base) out_dir = out_dir @ rel
   \<and> (\<not> prefix base src \<longrightarrow>
        ensure_output_path src (Some base) out_dir = joinpath out_dir (path_name src))
   \<and> ensure_output_path [''in'', ''a'', ''b.pdf''] (Some [''in'']) [''out'']
        = [''out'', ''a'', ''b.pdf'']
   \<and> ensure_output_path [''in'', ''a'', ''b.pdf''] None [''out''] = [''out'', ''b.pdf'']"
  by (simp add: ensure_output_path_def joinpath_def path_name_def relative_to_def)

theorem ensure_output_path_maps_witness:
  "\<not> prefix [''in''] [''elsewhere'', ''b.pdf'']
   \<and> ensure_output_path [''elsewhere'', ''b.pdf''] (Some [''in'']) [''out''] = [''out'', ''b.pdf'']
   \<and> ensure_output_path ([''in''] @ [''a'', ''b.pdf'']) (Some [''in'']) [''out'']
        = [''out''] @ [''a'', ''b.pdf'']
   \<and> ensure_output_path [''elsewhere'', ''b.pdf''] None [''out''] = [''out'', ''b.pdf'']"
  using ensure_output_path_maps [of "[''elsewhere'', ''b.pdf'']" "[''out'']" "[''in'']"
      "[''a'', ''b.pdf'']"]
  by (simp add: joinpath_def path_name_def)

section \<open>Basic facts about the primitives\<close>

lemma fs_emit [simp]: "fs (emit ev w) = fs w"
  by (simp add: emit_def)

lemma trace_emit [simp]: "trace (emit ev w) = trace w @ [ev]"
  by (simp add: emit_def)

lemma new_events_append [simp]: "trace w' = trace w @ evs \<Longrightarrow> new_events w w' = evs"
  by (simp add: new_events_def)

lemma stat_size_fs [simp]: "fs (snd (stat_size e p w)) = fs w"
  by (simp add: stat_size_def Let_def split: option.splits node.splits)

lemma stat_size_trace [simp]: "trace (snd (stat_size e p w)) = trace w @ [EvStat p]"
  by (simp add: stat_size_def Let_def split: option.splits node.splits)

lemma stat_size_world: "stat_size e p w = (r, w1) \<Longrightarrow> w1 = emit (EvStat p) w"
  by (auto simp: stat_size_def Let_def split: option.splits node.splits)

lemma stat_size_file:
  "fs w p = Some (File bytes) \<Longrightarrow> stat_size e p w = (Inr (length bytes), emit (EvStat p) w)"
  by (simp add: stat_size_def)

lemma stat_size_missing:
  "fs w p = None \<Longrightarrow> stat_size e p w = (Inl (FileNotFoundError p), emit (EvStat p) w)"
  by (simp add: stat_size_def)

lemma path_exists_eq [simp]: "path_exists p w = (fs w p \<noteq> None, emit (EvExists p) w)"
  by (simp add: path_exists_def)

lemma mkdtemp_ok:
  "mkdtemp e w = (Inr td, w2) \<Longrightarrow>
     td = tempdir e \<and> fs w td = None \<and> td \<noteq> [] \<and> fs w2 = (fs w)(td \<mapsto> Dir)
     \<and> trace w2 = trace w @ [EvMkTemp td]"
  by (auto simp: mkdtemp_def Let_def split: if_splits)

lemma mkdtemp_fail:
  "mkdtemp e w = (Inl err, w2) \<Longrightarrow> fs w2 = fs w \<and> trace w2 = trace w @ [EvMkTemp (tempdir e)]"
  by (auto simp: mkdtemp_def Let_def split: if_splits)

lemma run_ghostscript_compress_fs:
  "run_ghostscript_compress e src tmp_out quality w = (r, w') \<Longrightarrow>
     fs w' = fs w \<or> (\<exists>bytes. fs w' = (fs w)(tmp_out \<mapsto> File bytes))"
  by (auto simp: run_ghostscript_compress_def Let_def write_output_def
      split: option.splits proc_result.splits if_splits)

lemma run_ghostscript_compress_trace:
  "run_ghostscript_compress e src tmp_out quality w = (r, w') \<Longrightarrow>
     \<exists>evs. trace w' = trace w @ evs \<and> \<not> list_ex is_fallback evs"
  by (auto simp: run_ghostscript_compress_def Let_def write_output_def is_fallback_def
      split: option.splits proc_result.splits if_splits)

lemma run_pikepdf_optimize_fs:
  "run_pikepdf_optimize e src tmp_out w = (r, w') \<Longrightarrow>
     fs w' = fs w \<or> (\<exists>bytes. fs w' = (fs w)(tmp_out \<mapsto> File bytes))"
  by (auto simp: run_pikepdf_optimize_def Let_def write_output_def
      split: option.splits lib_result.splits if_splits)

lemma run_pikepdf_optimize_trace:
  "run_pikepdf_optimize e src tmp_out w = (r, w') \<Longrightarrow> \<exists>evs. trace w' = trace w @ evs"
  by (auto simp: run_pikepdf_optimize_def Let_def write_output_def
      split: option.splits lib_result.splits if_splits)

lemma mkdir_fs_existing: "f p = Some Dir \<Longrightarrow> mkdir_fs p f = Inr f"
  by (simp add: mkdir_fs.simps)

lemma mkdir_parents_existing:
  "fs w p = Some Dir \<Longrightarrow> mkdir_parents p w = (Inr (), emit (EvMkdir p) w)"
  by (simp add: mkdir_parents_def mkdir_fs_existing emit_def)

lemma mkdir_parents_trace [simp]: "trace (snd (mkdir_parents p w)) = trace w @ [EvMkdir p]"
  by (simp add: mkdir_parents_def Let_def split: sum.splits)

lemma shutil_move_trace [simp]: "trace (snd (shutil_move e a b w)) = trace w @ [EvMove a b]"
  by (simp add: shutil_move_def Let_def split: option.splits node.splits)

lemma shutil_move_traceD: "shutil_move e a b w = (r, w') \<Longrightarrow> trace w' = trace w @ [EvMove a b]"
  using shutil_move_trace [of e a b w] by simp

section \<open>The commit step\<close>

lemma safe_write_output_trace:
  "\<exists>evs. trace (snd (safe_write_output e tmp_out final_out overwrite w)) = trace w @ evs
     \<and> \<not> list_ex is_fallback evs"
  by (auto simp: safe_write_output_def is_fallback_def mkdir_parents_def Let_def
      split: prod.splits sum.splits dest!: shutil_move_traceD)

lemma safe_write_output_exists:
  assumes "fs w final_out \<noteq> None" and "fs w (butlast final_out) = Some Dir" and "\<not> overwrite"
  shows "safe_write_output e tmp_out final_out overwrite w =
           (Inr (False, ''Output exists (use --overwrite): '' @ path_str final_out),
            emit (EvExists final_out) (emit (EvMkdir (butlast final_out)) w))"
  using assms by (simp add: safe_write_output_def mkdir_parents_existing)

lemma wf_fs_parent: "wf_fs f \<Longrightarrow> f p \<noteq> None \<Longrightarrow> f (butlast p) = Some Dir"
  by (cases "p = []") (auto simp: wf_fs_def)


lemma safe_write_output_traceD:
  "safe_write_output e tmp_out final_out overwrite w = (r, w') \<Longrightarrow>
     \<exists>evs. trace w' = trace w @ evs \<and> \<not> list_ex is_fallback evs"
  using safe_write_output_trace [of e tmp_out final_out overwrite w] by simp

section \<open>From the candidate to the result\<close>

lemma candidate_step_missing:
  "fs w tmp_out = None \<Longrightarrow>
     candidate_step e src dst overwrite before tmp_out meth msg w =
       (Inr \<lparr>res_src = src, res_dst = dst, method_used = ''failed'', before_bytes = before,
             after_bytes = before, saved_bytes = 0, saved_pct = 0, skipped = True,
             message = ''Compression produced no output file.''\<rparr>,
        emit (EvExists tmp_out) w)"
  by (simp add: candidate_step_def)

lemma candidate_step_not_smaller:
  "fs w tmp_out = Some (File bytes) \<Longrightarrow> before \<le> length bytes \<Longrightarrow>
     candidate_step e src dst overwrite before tmp_out meth msg w =
       (Inr \<lparr>res_src = src, res_dst = dst, method_used = meth, before_bytes = before,
             after_bytes = length bytes, saved_bytes = 0, saved_pct = 0, skipped = True,
             message = ''Skipped: output not smaller ('' @ human_bytes (length bytes)
               @ '' >= '' @ human_bytes before @ ''). '' @ msg\<rparr>,
        emit (EvStat tmp_out) (emit (EvExists tmp_out) w))"
  by (simp add: candidate_step_def stat_size_def)

lemma candidate_step_result:
  assumes "candidate_step e src dst overwrite before tmp_out meth msg w = (Inr r, w')"
  shows "before_bytes r = before \<and> (\<not> skipped r \<longrightarrow> after_bytes r < before)
           \<and> (before \<le> after_bytes r \<longrightarrow> skipped r \<and> saved_bytes r = 0)
           \<and> (fs w tmp_out \<noteq> None \<longrightarrow> method_used r = meth)"
  using assms
  by (auto simp: candidate_step_def split: if_splits prod.splits sum.splits)

lemma candidate_step_trace:
  "candidate_step e src dst overwrite before tmp_out meth msg w = (r, w') \<Longrightarrow>
     \<exists>evs. trace w' = trace w @ evs \<and> \<not> list_ex is_fallback evs"
  by (auto simp: candidate_step_def is_fallback_def
      split: if_splits prod.splits sum.splits
      dest!: safe_write_output_traceD stat_size_world)


section \<open>The orchestrator\<close>

lemma compress_one_run:
  assumes "\<not> dry_run" and "stat_size e src w = (Inr before, w1)"
    and "mkdtemp e w1 = (Inr td, w2)"
  shows "compress_one e src dst quality overwrite dry_run w =
           (fst (strategy_step e src dst quality overwrite before
                   (td @ [path_stem src @ ''.compressed.pdf'']) w2),
            cleanup td (snd (strategy_step e src dst quality overwrite before
                   (td @ [path_stem src @ ''.compressed.pdf'']) w2)))"
  using assms by (simp add: compress_one_def split: prod.splits)

lemma strategy_step_primary:
  "run_ghostscript_compress e src tmp_out quality w = ((True, msg), w1) \<Longrightarrow>
     strategy_step e src dst quality overwrite before tmp_out w =
       candidate_step e src dst overwrite before tmp_out (''ghostscript('' @ quality @ '')'') msg w1"
  by (simp add: strategy_step_def)

lemma strategy_step_fallback:
  "run_ghostscript_compress e src tmp_out quality w = ((False, msg), w1) \<Longrightarrow>
   run_pikepdf_optimize e src tmp_out w1 = ((True, msg2), w2) \<Longrightarrow>
     strategy_step e src dst quality overwrite before tmp_out w =
       candidate_step e src dst overwrite before tmp_out ''pikepdf(optimize)'' msg2 w2"
  by (simp add: strategy_step_def)

lemma strategy_step_failed:
  "run_ghostscript_compress e src tmp_out quality w = ((False, msg), w1) \<Longrightarrow>
   run_pikepdf_optimize e src tmp_out w1 = ((False, msg2), w2) \<Longrightarrow>
     strategy_step e src dst quality overwrite before tmp_out w =
       (Inr \<lparr>res_src = src, res_dst = dst, method_used = ''failed'', before_bytes = before,
             after_bytes = before, saved_bytes = 0, saved_pct = 0, skipped = True,
             message = ''Compression failed. GS: '' @ msg @ '' | Fallback: '' @ msg2\<rparr>, w2)"
  by (simp add: strategy_step_def)

lemma strategy_step_result:
  assumes "strategy_step e src dst quality overwrite before tmp_out w = (Inr r, w')"
  shows "before_bytes r = before \<and> (\<not> skipped r \<longrightarrow> after_bytes r < before)
           \<and> (before \<le> after_bytes r \<longrightarrow> skipped r \<and> saved_bytes r = 0)"
  using assms
  by (auto simp: strategy_step_def split: prod.splits if_splits dest: candidate_step_result)

lemma compress_one_result:
  assumes "compress_one e src dst quality overwrite dry_run w = (Inr r, w')"
  shows "(\<not> skipped r \<longrightarrow> after_bytes r < before_bytes r)
           \<and> (before_bytes r \<le> after_bytes r \<longrightarrow> skipped r \<and> saved_bytes r = 0)"
  using assms
  by (auto simp: compress_one_def split: prod.splits sum.splits if_splits
      dest: strategy_step_result)

lemma compress_one_not_smaller:
  assumes "\<not> dry_run" and "stat_size e src w = (Inr before, w1)"
    and "mkdtemp e w1 = (Inr td, w2)"
    and "tmp_out = td @ [path_stem src @ ''.compressed.pdf'']"
    and "run_ghostscript_compress e src tmp_out quality w2 = ((ok, msg), w3)"
    and "run_pikepdf_optimize e src tmp_out w3 = ((ok2, msg2), w4)"
    and "ok \<or> ok2"
    and "fs (if ok then w3 else w4) tmp_out = Some (File bytes)"
    and "before \<le> length bytes"
  shows "\<exists>r w'. compress_one e src dst quality overwrite dry_run w = (Inr r, w')
           \<and> skipped r \<and> saved_bytes r = 0 \<and> before_bytes r = before
           \<and> after_bytes r = length bytes
           \<and> method_used r =
               (if ok then ''ghostscript('' @ quality @ '')'' else ''pikepdf(optimize)'')"
proof (cases ok)
  case True
  with assms show ?thesis
    by (simp add: compress_one_run strategy_step_primary candidate_step_not_smaller)
next
  case False
  with assms show ?thesis
    by (simp add: compress_one_run strategy_step_fallback candidate_step_not_smaller)
qed

section \<open>Evaluating the example runs\<close>

lemma example_stem: "path_stem example_src = ''a''"
  by code_simp

lemma example_stat:
  "stat_size e example_src example_world = (Inr 300, emit (EvStat example_src) example_world)"
  by (simp add: stat_size_def example_world_def example_fs_def)

lemma example_mkdtemp:
  "tempdir e = example_td \<Longrightarrow> fs w = example_fs \<Longrightarrow>
     mkdtemp e w = (Inr example_td, (emit (EvMkTemp example_td) w)\<lparr>fs := (fs w)(example_td \<mapsto> Dir)\<rparr>)"
  by (simp add: mkdtemp_def example_fs_def Let_def)

lemmas example_defs =
  example_env_def no_tools_env_def gs_env_def pikepdf_env_def silent_gs_env_def
  example_world_def example_fs_def

lemmas run_defs =
  compress_one_def strategy_step_def candidate_step_def safe_write_output_def mkdtemp_def
  stat_size_def run_ghostscript_compress_def run_pikepdf_optimize_def QUALITY_MAP_def
  write_output_def mkdir_parents_def mkdir_fs.simps shutil_move_def cleanup_def Let_def
  example_stem

lemma example_committed:
  "fst (compress_one (gs_env 200) example_src example_dst ''ebook'' False False example_world) =
     Inr \<lparr>res_src = example_src, res_dst = example_dst, method_used = ''ghostscript(ebook)'',
           before_bytes = 300, after_bytes = 200, saved_bytes = 100, saved_pct = 100 / 3,
           skipped = False, message = ''Compressed with Ghostscript.''\<rparr>"
  by (simp add: run_defs example_defs)

text \<open>
  C1. Every result \<open>compress_one\<close> returns that is not skipped has \<open>after_bytes\<close> below
  \<open>before_bytes\<close>. And whenever a strategy has produced a candidate that is not smaller
  than the source, \<open>compress_one\<close> returns a skipped result that keeps the name of the
  strategy and has \<open>saved_bytes = 0\<close>. The candidate is the file at the temporary path
  after the primary has succeeded, or after the primary has failed and the fallback has
  succeeded.
\<close>

theorem compress_one_size_policy:
  "(compress_one e src dst quality overwrite dry_run w = (Inr r, w') \<longrightarrow>
      (\<not> skipped r \<longrightarrow> after_bytes r < before_bytes r)
      \<and> (before_bytes r \<le> after_bytes r \<longrightarrow> skipped r \<and> saved_bytes r = 0))
   \<and> (\<not> dry_run \<longrightarrow> stat_size e src w = (Inr before, w1) \<longrightarrow> mkdtemp e w1 = (Inr td, w2) \<longrightarrow>
       tmp_out = td @ [path_stem src @ ''.compressed.pdf''] \<longrightarrow>
       run_ghostscript_compress e src tmp_out quality w2 = ((ok, msg), w3) \<longrightarrow>
       run_pikepdf_optimize e src tmp_out w3 = ((ok2, msg2), w4) \<longrightarrow>
       ok \<or> ok2 \<longrightarrow>
       fs (if ok then w3 else w4) tmp_out = Some (File bytes) \<longrightarrow>
       before \<le> length bytes \<longrightarrow>
       (\<exists>r' w''. compress_one e src dst quality overwrite dry_run w = (Inr r', w'')
          \<and> skipped r' \<and> saved_bytes r' = 0 \<and> before_bytes r' = before
          \<and> after_bytes r' = length bytes
          \<and> method_used r' =
              (if ok then ''ghostscript('' @ quality @ '')'' else ''pikepdf(optimize)'')))"
  using compress_one_result [of e src dst quality overwrite dry_run w r w']
    compress_one_not_smaller [of dry_run e src w before w1 td w2 tmp_out quality ok msg w3
      ok2 msg2 w4 bytes dst overwrite]
  by blast

theorem compress_one_size_policy_witness:
  "(\<exists>r w'. compress_one (gs_env 200) example_src example_dst ''ebook'' False False example_world
              = (Inr r, w')
      \<and> \<not> skipped r \<and> after_bytes r < before_bytes r)
   \<and> (\<exists>r w'. compress_one (gs_env 300) example_src example_dst ''ebook'' False False example_world
              = (Inr r, w')
      \<and> skipped r \<and> saved_bytes r = 0 \<and> before_bytes r = 300 \<and> after_bytes r = 300
      \<and> method_used r = ''ghostscript(ebook)'')
   \<and> (\<exists>r w'. compress_one (pikepdf_env 350) example_src example_dst ''ebook'' False False
                example_world = (Inr r, w')
      \<and> skipped r \<and> saved_bytes r = 0 \<and> before_bytes r = 300 \<and> after_bytes r = 350
      \<and> method_used r = ''pikepdf(optimize)'')"
proof (intro conjI)
  let ?r = "\<lparr>res_src = example_src, res_dst = example_dst, method_used = ''ghostscript(ebook)'',
           before_bytes = 300, after_bytes = 200, saved_bytes = 100, saved_pct = 100 / 3,
           skipped = False, message = ''Compressed with Ghostscript.''\<rparr>"
  let ?run = "compress_one (gs_env 200) example_src example_dst ''ebook'' False False example_world"
  have run: "?run = (Inr ?r, snd ?run)"
    using example_committed by (simp add: prod_eq_iff)
  from compress_one_size_policy [of "gs_env 200" example_src example_dst "''ebook''" False False
      example_world ?r "snd ?run"] run
  have "\<not> skipped ?r \<longrightarrow> after_bytes ?r < before_bytes ?r"
    by blast
  with run show "\<exists>r w'. ?run = (Inr r, w') \<and> \<not> skipped r \<and> after_bytes r < before_bytes r"
    by (metis compress_result.select_convs(8))
next
  let ?e = "gs_env 300"
  let ?w1 = "emit (EvStat example_src) example_world"
  let ?w2 = "snd (mkdtemp ?e ?w1)"
  let ?w3 = "snd (run_ghostscript_compress ?e example_src example_tmp ''ebook'' ?w2)"
  let ?w4 = "snd (run_pikepdf_optimize ?e example_src example_tmp ?w3)"
  have tmp: "example_tmp = example_td @ [path_stem example_src @ ''.compressed.pdf'']"
    by (simp add: example_stem)
  have mk: "mkdtemp ?e ?w1 = (Inr example_td, ?w2)"
    by (simp add: mkdtemp_def example_defs Let_def)
  have gs: "run_ghostscript_compress ?e example_src example_tmp ''ebook'' ?w2
              = ((True, ''Compressed with Ghostscript.''), ?w3)"
    by (simp add: run_ghostscript_compress_def QUALITY_MAP_def example_defs Let_def)
  have pk: "run_pikepdf_optimize ?e example_src example_tmp ?w3
              = ((True, ''Optimized with pikepdf (structure/streams).''), ?w4)"
    by (simp add: run_pikepdf_optimize_def example_defs Let_def)
  have cand: "fs (if True then ?w3 else ?w4) example_tmp = Some (File (replicate 300 (CHR ''y'')))"
    by (simp add: run_ghostscript_compress_def QUALITY_MAP_def write_output_def mkdtemp_def
        example_defs Let_def)
  have size: "(300::nat) \<le> length (replicate 300 (CHR ''y''))"
    by simp
  have dry: "\<not> False" and disj: "True \<or> True"
    by simp_all
  from compress_one_size_policy [THEN conjunct2, rule_format,
      OF dry example_stat mk tmp gs pk disj cand size]
  show "\<exists>r w'. compress_one ?e example_src example_dst ''ebook'' False False example_world
              = (Inr r, w')
      \<and> skipped r \<and> saved_bytes r = 0 \<and> before_bytes r = 300 \<and> after_bytes r = 300
      \<and> method_used r = ''ghostscript(ebook)''"
    by simp
next
  let ?e = "pikepdf_env 350"
  let ?w1 = "emit (EvStat example_src) example_world"
  let ?w2 = "snd (mkdtemp ?e ?w1)"
  let ?w3 = "snd (run_ghostscript_compress ?e example_src example_tmp ''ebook'' ?w2)"
  let ?w4 = "snd (run_pikepdf_optimize ?e example_src example_tmp ?w3)"
  have tmp: "example_tmp = example_td @ [path_stem example_src @ ''.compressed.pdf'']"
    by (simp add: example_stem)
  have mk: "mkdtemp ?e ?w1 = (Inr example_td, ?w2)"
    by (simp add: mkdtemp_def example_defs Let_def)
  have gs: "run_ghostscript_compress ?e example_src example_tmp ''ebook'' ?w2
              = ((False, ''Ghostscript (gs) not found.''), ?w3)"
    by (simp add: run_ghostscript_compress_def example_defs Let_def)
  have pk: "run_pikepdf_optimize ?e example_src example_tmp ?w3
              = ((True, ''Optimized with pikepdf (structure/streams).''), ?w4)"
    by (simp add: run_pikepdf_optimize_def example_defs Let_def)
  have cand: "fs (if False then ?w3 else ?w4) example_tmp = Some (File (replicate 350 (CHR ''z'')))"
    by (simp add: run_pikepdf_optimize_def write_output_def example_defs Let_def)
  have size: "(300::nat) \<le> length (replicate 350 (CHR ''z''))"
    by simp
  have dry: "\<not> False" and disj: "False \<or> True"
    by simp_all
  from compress_one_size_policy [THEN conjunct2, rule_format,
      OF dry example_stat mk tmp gs pk disj cand size]
  show "\<exists>r w'. compress_one ?e example_src example_dst ''ebook'' False False example_world
              = (Inr r, w')
      \<and> skipped r \<and> saved_bytes r = 0 \<and> before_bytes r = 300 \<and> after_bytes r = 350
      \<and> method_used r = ''pikepdf(optimize)''"
    by simp
qed

text \<open>
  C4. When the primary compressor and the fallback optimizer both fail, \<open>compress_one\<close>
  returns a result with the method \<open>failed\<close>, skipped, \<open>after_bytes = before_bytes\<close>,
  \<open>saved_bytes = 0\<close> and a message that contains the failure reason of the primary and
  the failure reason of the fallback.
\<close>

theorem compress_one_both_fail:
  assumes "\<not> dry_run"
    and "stat_size e src w = (Inr before, w1)"
    and "mkdtemp e w1 = (Inr td, w2)"
    and "tmp_out = td @ [path_stem src @ ''.compressed.pdf'']"
    and "run_ghostscript_compress e src tmp_out quality w2 = ((False, msg), w3)"
    and "run_pikepdf_optimize e src tmp_out w3 = ((False, msg2), w4)"
  shows "\<exists>r w'. compress_one e src dst quality overwrite dry_run w = (Inr r, w')
           \<and> method_used r = ''failed'' \<and> skipped r \<and> before_bytes r = before
           \<and> after_bytes r = before \<and> saved_bytes r = 0
           \<and> sublist msg (message r) \<and> sublist msg2 (message r)"
proof -
  let ?m = "''Compression failed. GS: '' @ msg @ '' | Fallback: '' @ msg2"
  have 1: "sublist msg ?m"
    by (rule sublist_appendI)
  have "?m = (''Compression failed. GS: '' @ msg @ '' | Fallback: '') @ msg2 @ []"
    by simp
  then have 2: "sublist msg2 ?m"
    unfolding sublist_def by blast
  show ?thesis
    using assms 1 2 by (simp add: compress_one_run strategy_step_failed)
qed

theorem compress_one_both_fail_witness:
  "\<exists>r w'. compress_one no_tools_env example_src example_dst ''ebook'' False False example_world
             = (Inr r, w')
     \<and> method_used r = ''failed'' \<and> skipped r \<and> before_bytes r = 300 \<and> after_bytes r = 300
     \<and> saved_bytes r = 0
     \<and> sublist ''Ghostscript (gs) not found.'' (message r)
     \<and> sublist ''pikepdf is not installed (fallback unavailable).'' (message r)"
proof -
  let ?w1 = "emit (EvStat example_src) example_world"
  let ?w2 = "snd (mkdtemp no_tools_env ?w1)"
  let ?w3 = "snd (run_ghostscript_compress no_tools_env example_src example_tmp ''ebook'' ?w2)"
  let ?w4 = "snd (run_pikepdf_optimize no_tools_env example_src example_tmp ?w3)"
  have dry: "\<not> False"
    by simp
  have tmp: "example_tmp = example_td @ [path_stem example_src @ ''.compressed.pdf'']"
    by (simp add: example_stem)
  have mk: "mkdtemp no_tools_env ?w1 = (Inr example_td, ?w2)"
    by (simp add: mkdtemp_def example_defs Let_def)
  have gs: "run_ghostscript_compress no_tools_env example_src example_tmp ''ebook'' ?w2
              = ((False, ''Ghostscript (gs) not found.''), ?w3)"
    by (simp add: run_ghostscript_compress_def example_defs Let_def)
  have pk: "run_pikepdf_optimize no_tools_env example_src example_tmp ?w3
              = ((False, ''pikepdf is not installed (fallback unavailable).''), ?w4)"
    by (simp add: run_pikepdf_optimize_def example_defs)
  show ?thesis
    by (rule compress_one_both_fail [OF dry example_stat mk tmp gs pk])
qed


section \<open>Dry run\<close>

lemma compress_one_dry_run_missing:
  "fs w src = None \<Longrightarrow>
     compress_one e src dst quality overwrite True w =
       (Inl (FileNotFoundError src), emit (EvStat src) w)"
  by (simp add: compress_one_def stat_size_missing)

lemma compress_one_dry_run_present:
  "fs w src = Some n \<Longrightarrow>
     compress_one e src dst quality overwrite True w =
       (Inr \<lparr>res_src = src, res_dst = dst, method_used = ''dry-run'',
             before_bytes = (case n of File bytes \<Rightarrow> length bytes | Dir \<Rightarrow> dir_size e),
             after_bytes = (case n of File bytes \<Rightarrow> length bytes | Dir \<Rightarrow> dir_size e),
             saved_bytes = 0, saved_pct = 0, skipped = True,
             message = ''Dry run: no file written.''\<rparr>,
        emit (EvStat src) w)"
  by (cases n) (simp_all add: compress_one_def stat_size_def)

text \<open>
  C5 (amended). When a dry run is requested, \<open>compress_one\<close> leaves the filesystem as it
  was and starts neither strategy: the one operation it performs is reading the size of
  the source. When the source does not exist that read raises \<open>FileNotFoundError\<close> and no
  result is returned; otherwise the result has the method \<open>dry-run\<close>, is skipped, and has
  \<open>after_bytes = before_bytes\<close> and \<open>saved_bytes = 0\<close>.
\<close>

theorem compress_one_dry_run:
  "fs (snd (compress_one e src dst quality overwrite True w)) = fs w
   \<and> new_events w (snd (compress_one e src dst quality overwrite True w)) = [EvStat src]
   \<and> (fs w src = None \<longrightarrow>
        fst (compress_one e src dst quality overwrite True w) = Inl (FileNotFoundError src))
   \<and> (fs w src \<noteq> None \<longrightarrow>
        (\<exists>r. fst (compress_one e src dst quality overwrite True w) = Inr r
           \<and> method_used r = ''dry-run'' \<and> skipped r \<and> after_bytes r = before_bytes r
           \<and> saved_bytes r = 0))"
proof (cases "fs w src")
  case None
  then show ?thesis
    by (simp add: compress_one_dry_run_missing)
next
  case (Some n)
  then show ?thesis
    by (simp add: compress_one_dry_run_present)
qed

theorem compress_one_dry_run_witness:
  "fs (snd (compress_one (gs_env 200) example_src example_dst ''ebook'' True True example_world))
     = example_fs
   \<and> new_events example_world
        (snd (compress_one (gs_env 200) example_src example_dst ''ebook'' True True example_world))
       = [EvStat example_src]
   \<and> (\<exists>r. fst (compress_one (gs_env 200) example_src example_dst ''ebook'' True True
                 example_world) = Inr r
         \<and> method_used r = ''dry-run'' \<and> skipped r \<and> after_bytes r = before_bytes r
         \<and> saved_bytes r = 0)
   \<and> fst (compress_one (gs_env 200) [''in'', ''missing.pdf''] [''out'', ''missing.pdf'']
            ''ebook'' True True example_world) = Inl (FileNotFoundError [''in'', ''missing.pdf''])"
proof -
  have present: "fs example_world example_src \<noteq> None"
    by (simp add: example_world_def example_fs_def)
  have missing: "fs example_world [''in'', ''missing.pdf''] = None"
    by (simp add: example_world_def example_fs_def)
  have same: "fs example_world = example_fs"
    by (simp add: example_world_def)
  show ?thesis
    using compress_one_dry_run [of "gs_env 200" example_src example_dst "''ebook''" True
        example_world]
      compress_one_dry_run [of "gs_env 200" "[''in'', ''missing.pdf'']"
        "[''out'', ''missing.pdf'']" "''ebook''" True example_world]
      present missing same
    by simp
qed

text \<open>
  The dry run of the example reads the size of the source, and the dry run of a source
  that does not exist returns no result.
\<close>

theorem dry_run_reads_the_source:
  "new_events example_world
     (snd (compress_one no_tools_env example_src example_dst ''ebook'' False True example_world))
     = [EvStat example_src]
   \<and> fst (compress_one no_tools_env [''in'', ''missing.pdf''] [''out'', ''missing.pdf'']
            ''ebook'' False True example_world) = Inl (FileNotFoundError [''in'', ''missing.pdf''])"
  by (simp add: compress_one_def stat_size_def example_world_def example_fs_def new_events_def)


section \<open>The order of the strategies\<close>

lemma cleanup_trace [simp]: "trace (cleanup td w) = trace w @ [EvRmTree td]"
  by (simp add: cleanup_def)

lemma safe_write_output_raises:
  "safe_write_output e tmp_out final_out overwrite w = (Inl err, w') \<Longrightarrow>
     mkdir_fs (butlast final_out) (fs w) = Inl err"
  by (auto simp: safe_write_output_def mkdir_parents_def Let_def
      split: prod.splits sum.splits if_splits)

lemma candidate_step_outcome:
  assumes "fs w tmp_out \<noteq> None"
    and "candidate_step e src dst overwrite before tmp_out meth msg w = (res, w')"
  shows "(\<exists>r. res = Inr r \<and> method_used r = meth)
           \<or> (\<exists>err. res = Inl err \<and> mkdir_fs (butlast dst) (fs w) = Inl err)"
proof (cases res)
  case (Inr r)
  with assms candidate_step_result [of e src dst overwrite before tmp_out meth msg w r w']
  show ?thesis
    by simp
next
  case (Inl err)
  from assms(1) obtain n where n: "fs w tmp_out = Some n"
    by blast
  define after where "after = (case n of File bytes \<Rightarrow> length bytes | Dir \<Rightarrow> dir_size e)"
  define w2 where "w2 = emit (EvStat tmp_out) (emit (EvExists tmp_out) w)"
  have stat: "stat_size e tmp_out (emit (EvExists tmp_out) w) = (Inr after, w2)"
    using n by (cases n) (simp_all add: stat_size_def after_def w2_def)
  have "fs w2 = fs w"
    by (simp add: w2_def)
  moreover have "safe_write_output e tmp_out dst overwrite w2 = (Inl err, w')"
    using assms(2) Inl n stat
    by (auto simp: candidate_step_def split: if_splits prod.splits sum.splits)
  ultimately show ?thesis
    using Inl safe_write_output_raises [of e tmp_out dst overwrite w2 err w'] by simp
qed

lemma compress_one_primary:
  assumes "\<not> dry_run" and "stat_size e src w = (Inr before, w1)"
    and "mkdtemp e w1 = (Inr td, w2)"
    and "tmp_out = td @ [path_stem src @ ''.compressed.pdf'']"
    and "run_ghostscript_compress e src tmp_out quality w2 = ((True, msg), w3)"
    and "compress_one e src dst quality overwrite dry_run w = (res, w')"
  shows "\<not> list_ex is_fallback (new_events w w')"
    and "fs w3 tmp_out \<noteq> None \<Longrightarrow>
           (\<exists>r. res = Inr r \<and> method_used r = ''ghostscript('' @ quality @ '')'')
           \<or> (\<exists>err. res = Inl err \<and> mkdir_fs (butlast dst) (fs w3) = Inl err)"
    and "fs w3 tmp_out = None \<Longrightarrow>
           res = Inr \<lparr>res_src = src, res_dst = dst, method_used = ''failed'',
                      before_bytes = before, after_bytes = before, saved_bytes = 0,
                      saved_pct = 0, skipped = True,
                      message = ''Compression produced no output file.''\<rparr>"
proof -
  let ?gs = "''ghostscript('' @ quality @ '')''"
  let ?c = "candidate_step e src dst overwrite before tmp_out ?gs msg w3"
  from assms have run: "res = fst ?c" "w' = cleanup td (snd ?c)"
    by (simp_all add: compress_one_run strategy_step_primary)
  have w1: "trace w1 = trace w @ [EvStat src]"
    using assms(2) stat_size_world [of e src w "Inr before" w1] by simp
  have w2: "trace w2 = trace w1 @ [EvMkTemp td]"
    using assms(3) mkdtemp_ok by blast
  obtain evs where w3: "trace w3 = trace w2 @ evs" "\<not> list_ex is_fallback evs"
    using run_ghostscript_compress_trace [OF assms(5)] by blast
  obtain evs' where c: "trace (snd ?c) = trace w3 @ evs'" "\<not> list_ex is_fallback evs'"
    using candidate_step_trace [of e src dst overwrite before tmp_out ?gs msg w3 "fst ?c" "snd ?c"]
    by auto
  have "trace w' = trace w @ ([EvStat src, EvMkTemp td] @ evs @ evs' @ [EvRmTree td])"
    using run w1 w2 w3 c by simp
  then have "new_events w w' = [EvStat src, EvMkTemp td] @ evs @ evs' @ [EvRmTree td]"
    by (rule new_events_append)
  with w3 c show "\<not> list_ex is_fallback (new_events w w')"
    by (simp add: is_fallback_def)
  show "(\<exists>r. res = Inr r \<and> method_used r = ?gs)
           \<or> (\<exists>err. res = Inl err \<and> mkdir_fs (butlast dst) (fs w3) = Inl err)"
    if "fs w3 tmp_out \<noteq> None"
    using candidate_step_outcome [OF that, of e src dst overwrite before ?gs msg res "snd ?c"] run
    by simp
  show "res = Inr \<lparr>res_src = src, res_dst = dst, method_used = ''failed'',
                      before_bytes = before, after_bytes = before, saved_bytes = 0,
                      saved_pct = 0, skipped = True,
                      message = ''Compression produced no output file.''\<rparr>"
    if "fs w3 tmp_out = None"
    using run that by (simp add: candidate_step_missing)
qed

text \<open>
  C8 (amended). The two strategies are tried in order. The fallback optimizer is started
  only when the primary compressor has reported failure. When the primary reports success
  and has left a candidate file, every result \<open>compress_one\<close> returns has the method
  \<open>ghostscript(quality)\<close>; the one other outcome is the error raised when the directories
  of the destination cannot be created. When the primary reports success and has left no
  candidate file, the result has the method \<open>failed\<close> and the message that no output file
  was produced.
\<close>

theorem strategies_in_order:
  "\<not> dry_run \<longrightarrow> stat_size e src w = (Inr before, w1) \<longrightarrow> mkdtemp e w1 = (Inr td, w2) \<longrightarrow>
   tmp_out = td @ [path_stem src @ ''.compressed.pdf''] \<longrightarrow>
   run_ghostscript_compress e src tmp_out quality w2 = ((ok, msg), w3) \<longrightarrow>
   compress_one e src dst quality overwrite dry_run w = (res, w') \<longrightarrow>
     (list_ex is_fallback (new_events w w') \<longrightarrow> \<not> ok)
     \<and> (ok \<longrightarrow> fs w3 tmp_out \<noteq> None \<longrightarrow>
          (\<exists>r. res = Inr r \<and> method_used r = ''ghostscript('' @ quality @ '')'')
          \<or> (\<exists>err. res = Inl err \<and> mkdir_fs (butlast dst) (fs w3) = Inl err))
     \<and> (ok \<longrightarrow> fs w3 tmp_out = None \<longrightarrow>
          res = Inr \<lparr>res_src = src, res_dst = dst, method_used = ''failed'',
                     before_bytes = before, after_bytes = before, saved_bytes = 0,
                     saved_pct = 0, skipped = True,
                     message = ''Compression produced no output file.''\<rparr>)"
  using compress_one_primary [of dry_run e src w before w1 td w2 tmp_out quality msg w3 dst
      overwrite res w']
  by (cases ok) auto


theorem strategies_in_order_witness:
  "(\<exists>r. fst (compress_one (gs_env 200) example_src example_dst ''ebook'' False False
               example_world) = Inr r
        \<and> method_used r = ''ghostscript(ebook)'')
   \<and> \<not> list_ex is_fallback
         (new_events example_world
            (snd (compress_one (gs_env 200) example_src example_dst ''ebook'' False False
                    example_world)))
   \<and> fst (compress_one silent_gs_env example_src example_dst ''ebook'' False False example_world)
       = Inr \<lparr>res_src = example_src, res_dst = example_dst, method_used = ''failed'',
              before_bytes = 300, after_bytes = 300, saved_bytes = 0, saved_pct = 0,
              skipped = True, message = ''Compression produced no output file.''\<rparr>"
proof (intro conjI)
  let ?e = "gs_env 200"
  let ?w1 = "emit (EvStat example_src) example_world"
  let ?w2 = "snd (mkdtemp ?e ?w1)"
  let ?w3 = "snd (run_ghostscript_compress ?e example_src example_tmp ''ebook'' ?w2)"
  let ?run = "compress_one ?e example_src example_dst ''ebook'' False False example_world"
  have dry: "\<not> False"
    by simp
  have tmp: "example_tmp = example_td @ [path_stem example_src @ ''.compressed.pdf'']"
    by (simp add: example_stem)
  have mk: "mkdtemp ?e ?w1 = (Inr example_td, ?w2)"
    by (simp add: mkdtemp_def example_defs Let_def)
  have gs: "run_ghostscript_compress ?e example_src example_tmp ''ebook'' ?w2
              = ((True, ''Compressed with Ghostscript.''), ?w3)"
    by (simp add: run_ghostscript_compress_def QUALITY_MAP_def example_defs Let_def)
  have run: "?run = (fst ?run, snd ?run)"
    by simp
  have cand: "fs ?w3 example_tmp \<noteq> None"
    by (simp add: run_ghostscript_compress_def QUALITY_MAP_def write_output_def mkdtemp_def
        example_defs Let_def)
  have out: "mkdir_fs (butlast example_dst) (fs ?w3) = Inr (fs ?w3)"
    by (simp add: run_ghostscript_compress_def QUALITY_MAP_def write_output_def mkdtemp_def
        example_defs Let_def mkdir_fs.simps)
  note order = strategies_in_order [rule_format, OF dry example_stat mk tmp gs run]
  from order [THEN conjunct2, THEN conjunct1, rule_format, OF TrueI cand] out
  show "\<exists>r. fst ?run = Inr r \<and> method_used r = ''ghostscript(ebook)''"
    by auto
  from order [THEN conjunct1]
  show "\<not> list_ex is_fallback (new_events example_world (snd ?run))"
    by auto
next
  let ?e = "silent_gs_env"
  let ?w1 = "emit (EvStat example_src) example_world"
  let ?w2 = "snd (mkdtemp ?e ?w1)"
  let ?w3 = "snd (run_ghostscript_compress ?e example_src example_tmp ''ebook'' ?w2)"
  let ?run = "compress_one ?e example_src example_dst ''ebook'' False False example_world"
  have dry: "\<not> False"
    by simp
  have tmp: "example_tmp = example_td @ [path_stem example_src @ ''.compressed.pdf'']"
    by (simp add: example_stem)
  have mk: "mkdtemp ?e ?w1 = (Inr example_td, ?w2)"
    by (simp add: mkdtemp_def example_defs Let_def)
  have gs: "run_ghostscript_compress ?e example_src example_tmp ''ebook'' ?w2
              = ((True, ''Compressed with Ghostscript.''), ?w3)"
    by (simp add: run_ghostscript_compress_def QUALITY_MAP_def example_defs Let_def)
  have run: "?run = (fst ?run, snd ?run)"
    by simp
  have cand: "fs ?w3 example_tmp = None"
    by (simp add: run_ghostscript_compress_def QUALITY_MAP_def write_output_def mkdtemp_def
        example_defs Let_def)
  from strategies_in_order [rule_format, OF dry example_stat mk tmp gs run,
      THEN conjunct2, THEN conjunct2, rule_format, OF TrueI cand]
  show "fst ?run
       = Inr \<lparr>res_src = example_src, res_dst = example_dst, method_used = ''failed'',
              before_bytes = 300, after_bytes = 300, saved_bytes = 0, saved_pct = 0,
              skipped = True, message = ''Compression produced no output file.''\<rparr>"
    by simp
qed

text \<open>
  A primary compressor that exits with status 0 and leaves no output file reports success,
  and the result has the method \<open>failed\<close>.
\<close>

theorem primary_success_without_output:
  "fst (run_ghostscript_compress silent_gs_env example_src example_tmp ''ebook''
          (snd (mkdtemp silent_gs_env (emit (EvStat example_src) example_world))))
     = (True, ''Compressed with Ghostscript.'')
   \<and> fst (compress_one silent_gs_env example_src example_dst ''ebook'' False False example_world)
       = Inr \<lparr>res_src = example_src, res_dst = example_dst, method_used = ''failed'',
              before_bytes = 300, after_bytes = 300, saved_bytes = 0, saved_pct = 0,
              skipped = True, message = ''Compression produced no output file.''\<rparr>"
  by (simp add: run_defs example_defs)

end
